theory Spec2Isabelle
  imports Complex_Main "HOL-Library.AList"
begin

section \<open>JavaScript values held by the relay\<close>

text \<open>
  \<^verbatim>\<open>server.js\<close> receives its request bodies from \<^verbatim>\<open>express.json()\<close>, so every value a
  handler sees is a parsed JSON value or \<^verbatim>\<open>undefined\<close> (a property that is not there).
  An object is the list of its own properties in insertion order; an array carries its
  elements and, because a JavaScript array is an object too, the named properties that were
  assigned to it later.

  JSON numbers are IEEE doubles. The handlers never calculate with them: they ask for the
  type, for truthiness, for membership in \<^verbatim>\<open>[0, 1]\<close> and for identity. A number is therefore
  a \<^typ>\<open>real\<close> here; \<^verbatim>\<open>-0\<close> is \<open>0\<close> (both are falsy and identical under \<^verbatim>\<open>===\<close>), and
  \<^verbatim>\<open>NaN\<close> cannot come out of a JSON document.
\<close>

datatype jsval =
    JUndefined
  | JNull
  | JBool bool
  | JNum real
  | JStr string
  | JArr "jsval list" "(string \<times> jsval) list"
  | JObj "(string \<times> jsval) list"

text \<open>\<^verbatim>\<open>!v\<close> is \<open>\<not> truthy v\<close>: the falsy values are \<^verbatim>\<open>undefined\<close>, \<^verbatim>\<open>null\<close>, \<^verbatim>\<open>false\<close>,
  \<^verbatim>\<open>0\<close> and the empty string; every object and every array is truthy.\<close>

fun truthy :: "jsval \<Rightarrow> bool" where
  "truthy JUndefined = False"
| "truthy JNull = False"
| "truthy (JBool b) = b"
| "truthy (JNum n) = (n \<noteq> 0)"
| "truthy (JStr s) = (s \<noteq> [])"
| "truthy (JArr xs ps) = True"
| "truthy (JObj ps) = True"

fun typeof :: "jsval \<Rightarrow> string" where
  "typeof JUndefined = ''undefined''"
| "typeof JNull = ''object''"
| "typeof (JBool b) = ''boolean''"
| "typeof (JNum n) = ''number''"
| "typeof (JStr s) = ''string''"
| "typeof (JArr xs ps) = ''object''"
| "typeof (JObj ps) = ''object''"

fun isArray :: "jsval \<Rightarrow> bool" where
  "isArray (JArr xs ps) = True"
| "isArray v = False"

text \<open>\<^verbatim>\<open>coordinates.length\<close>; the handler reads it of arrays only.\<close>

fun array_length :: "jsval \<Rightarrow> nat" where
  "array_length (JArr xs ps) = length xs"
| "array_length v = 0"

text \<open>The \<open>i\<close>-th element that array destructuring binds: \<^verbatim>\<open>undefined\<close> past the end.\<close>

fun element :: "jsval \<Rightarrow> nat \<Rightarrow> jsval" where
  "element (JArr xs ps) i = (if i < length xs then xs ! i else JUndefined)"
| "element v i = JUndefined"

text \<open>
  \<^verbatim>\<open>a === b\<close> for two values that come from different request bodies (or from a body and a
  literal): primitives are compared by type and value; an object or an array is identical
  only to itself, and two parses never share one, so the comparison is false for them.
\<close>

fun strict_eq :: "jsval \<Rightarrow> jsval \<Rightarrow> bool" where
  "strict_eq JUndefined JUndefined = True"
| "strict_eq JNull JNull = True"
| "strict_eq (JBool a) (JBool b) = (a = b)"
| "strict_eq (JNum a) (JNum b) = (a = b)"
| "strict_eq (JStr a) (JStr b) = (a = b)"
| "strict_eq a b = False"

text \<open>\<^verbatim>\<open>xs.includes(v)\<close> compares with SameValueZero, which is \<^verbatim>\<open>===\<close> when no \<^verbatim>\<open>NaN\<close>
  is around.\<close>

definition js_includes :: "jsval list \<Rightarrow> jsval \<Rightarrow> bool" where
  "js_includes xs v = list_ex (\<lambda>x. strict_eq x v) xs"

text \<open>\<^verbatim>\<open>a || b\<close>.\<close>

definition js_or :: "jsval \<Rightarrow> jsval \<Rightarrow> jsval" where
  "js_or a b = (if truthy a then a else b)"

type_synonym props = "(string \<times> jsval) list"

text \<open>Reading a property of a parsed body: \<^verbatim>\<open>undefined\<close> when it is not there.\<close>

definition get_field :: "props \<Rightarrow> string \<Rightarrow> jsval" where
  "get_field ps k = (case map_of ps k of None \<Rightarrow> JUndefined | Some v \<Rightarrow> v)"

text \<open>Values whose properties can neither be read nor written: the access throws a
  \<^verbatim>\<open>TypeError\<close>.\<close>

fun nullish :: "jsval \<Rightarrow> bool" where
  "nullish JUndefined = True"
| "nullish JNull = True"
| "nullish v = False"

text \<open>
  Reading \<^verbatim>\<open>metadata.bannerData\<close>, with \<open>None\<close> for the \<^verbatim>\<open>TypeError\<close> on \<^verbatim>\<open>undefined\<close> and
  \<^verbatim>\<open>null\<close>. The name \<^verbatim>\<open>bannerData\<close> is no array index and no prototype defines it, so the
  value is the own property of that name of an object or an array, and \<^verbatim>\<open>undefined\<close> on a
  string, a number or a boolean.
\<close>

fun metadata_bannerData :: "jsval \<Rightarrow> jsval option" where
  "metadata_bannerData (JObj ps) = Some (get_field ps ''bannerData'')"
| "metadata_bannerData (JArr xs ps) = Some (get_field ps ''bannerData'')"
| "metadata_bannerData v = (if nullish v then None else Some JUndefined)"

text \<open>
  Whether the conversion to a string that a template literal \<^verbatim>\<open>`${v}`\<close> performs throws a
  \<^verbatim>\<open>TypeError\<close>. It never does on a primitive. On an object the conversion calls the method
  \<^verbatim>\<open>toString\<close>: an own property of that name hides \<^verbatim>\<open>Object.prototype.toString\<close> and, coming
  out of JSON, is not a function, and the fallback \<^verbatim>\<open>valueOf\<close> gives no primitive either, so
  the conversion throws; without such a property the result is \<^verbatim>\<open>"[object Object]"\<close>. On an
  array \<^verbatim>\<open>Array.prototype.toString\<close> calls \<^verbatim>\<open>join\<close>, which converts every element other than
  \<^verbatim>\<open>undefined\<close> and \<^verbatim>\<open>null\<close> in turn (an own property \<^verbatim>\<open>join\<close> that is no function makes it
  fall back to \<^verbatim>\<open>Object.prototype.toString\<close>).
\<close>

fun toString_throws :: "jsval \<Rightarrow> bool" where
  "toString_throws (JObj ps) = (map_of ps ''toString'' \<noteq> None)"
| "toString_throws (JArr xs ps) =
     (map_of ps ''toString'' \<noteq> None \<or>
      (map_of ps ''join'' = None \<and> list_ex toString_throws xs))"
| "toString_throws v = False"

text \<open>
  \<^verbatim>\<open>v.k = w\<close> for such a name, in a script that is not in strict mode (\<^verbatim>\<open>server.js\<close> is a
  CommonJS module without a \<^verbatim>\<open>"use strict"\<close> directive): an object or an array gets or
  overwrites the property; on a string, a number or a boolean the assignment is silently
  dropped. The handler never assigns to \<^verbatim>\<open>undefined\<close> or \<^verbatim>\<open>null\<close>, which would throw.
\<close>

fun set_property :: "jsval \<Rightarrow> string \<Rightarrow> jsval \<Rightarrow> jsval" where
  "set_property (JObj ps) k w = JObj (AList.update k w ps)"
| "set_property (JArr xs ps) k w = JArr xs (AList.update k w ps)"
| "set_property v k w = v"

section \<open>The three histories\<close>

text \<open>The field \<open>f\<close> of the source's object literals is \<open>coord_f\<close>, \<open>image_f\<close> or
  \<open>banner_f\<close> here; \<^verbatim>\<open>Date.now()\<close> is an input of each request.\<close>

record coordinateData =
  coord_distance :: jsval
  coord_x :: jsval
  coord_z :: jsval
  coord_photoCapture :: jsval
  coord_timestamp :: int

record imageData =
  image_url :: jsval
  image_metadata :: jsval
  image_timestamp :: int

record bannerData =
  banner_imageUrl :: jsval
  banner_brand :: jsval
  banner_position :: jsval
  banner_type :: jsval
  banner_timestamp :: int

text \<open>The banner object as the value that \<^verbatim>\<open>metadata.bannerData\<close> is set to.\<close>

definition banner_value :: "bannerData \<Rightarrow> jsval" where
  "banner_value b = JObj
     [(''imageUrl'', banner_imageUrl b), (''brand'', banner_brand b),
      (''position'', banner_position b), (''type'', banner_type b),
      (''timestamp'', JNum (of_int (banner_timestamp b)))]"

record store =
  coordinateHistory :: "coordinateData list"
  imageHistory :: "imageData list"
  bannerDataHistory :: "bannerData list"

definition MAX_HISTORY_LENGTH :: nat where
  "MAX_HISTORY_LENGTH = 100"

definition initial :: store where
  "initial = \<lparr>coordinateHistory = [], imageHistory = [], bannerDataHistory = []\<rparr>"

section \<open>Events and responses\<close>

datatype event =
    Coordinate_history "coordinateData list"
  | New_coordinate coordinateData
  | Image_history "imageData list"
  | New_image imageData
  | Coordinates_cleared
  | Images_cleared

text \<open>\<^verbatim>\<open>socket.emit\<close> reaches the one connection; \<^verbatim>\<open>io.emit\<close> reaches all of them.\<close>

datatype emission = Socket_emit event | Io_emit event

datatype reply =
    Error_reply string
  | Status_reply string string
  | Coordinates_reply "coordinateData list"
  | Images_reply "imageData list"
  | Banners_reply "bannerData list"
  | Banner_reply bannerData
  | Banner_received string bannerData
  | Express_error_page

record response =
  res_status :: nat
  res_json :: reply

type_synonym outcome = "store \<times> emission list \<times> response"

definition new_store :: "outcome \<Rightarrow> store" where
  "new_store r = fst r"

definition emitted :: "outcome \<Rightarrow> emission list" where
  "emitted r = fst (snd r)"

definition responded :: "outcome \<Rightarrow> response" where
  "responded r = snd (snd r)"

section \<open>The handlers\<close>

text \<open>\<^verbatim>\<open>io.on("connection", ...)\<close>: what the new socket is sent.\<close>

definition on_connection :: "store \<Rightarrow> emission list" where
  "on_connection s =
     (if length (coordinateHistory s) > 0
      then [Socket_emit (Coordinate_history (coordinateHistory s))] else []) @
     (if length (imageHistory s) > 0
      then [Socket_emit (Image_history (imageHistory s))] else [])"

text \<open>\<^verbatim>\<open>app.post("/api/coordinates", ...)\<close>\<close>

definition post_coordinates :: "props \<Rightarrow> int \<Rightarrow> store \<Rightarrow> outcome" where
  "post_coordinates body now s =
     (let coordinates = get_field body ''coordinates'' in
      if \<not> truthy coordinates \<or> \<not> isArray coordinates \<or> array_length coordinates < 3 then
        (s, [], \<lparr>res_status = 400, res_json = Error_reply
           ''Invalid coordinates format. Expected [distance, x, z, photoCapture]''\<rparr>)
      else
        let distance = element coordinates 0;
            x = element coordinates 1;
            z = element coordinates 2;
            photoCapture = (if element coordinates 3 = JUndefined then JNum 0
                            else element coordinates 3)
        in
        if typeof distance \<noteq> ''number'' \<or> typeof x \<noteq> ''number'' \<or> typeof z \<noteq> ''number'' then
          (s, [], \<lparr>res_status = 400, res_json = Error_reply
             ''All coordinate values must be numbers''\<rparr>)
        else if photoCapture \<noteq> JUndefined \<and> \<not> js_includes [JNum 0, JNum 1] photoCapture then
          (s, [], \<lparr>res_status = 400, res_json = Error_reply
             ''Photo capture value must be 0 or 1''\<rparr>)
        else
          let coordinateData = \<lparr>coord_distance = distance, coord_x = x, coord_z = z,
                 coord_photoCapture = js_or photoCapture (JNum 0), coord_timestamp = now\<rparr>;
              pushed = coordinateHistory s @ [coordinateData];
              shifted = (if length pushed > MAX_HISTORY_LENGTH then tl pushed else pushed)
          in (s\<lparr>coordinateHistory := shifted\<rparr>,
              [Io_emit (New_coordinate coordinateData)],
              \<lparr>res_status = 200, res_json = Status_reply ''success'' ''Coordinates received''\<rparr>))"

text \<open>
  \<^verbatim>\<open>app.post("/api/image", ...)\<close>. The \<^verbatim>\<open>console.log\<close> of the handler interpolates
  \<^verbatim>\<open>imageUrl\<close> into a template literal before anything is stored. Where that conversion
  throws, the handler is left with nothing stored and nothing emitted, and the default error
  handler of Express answers 500 with its error page.
\<close>

definition post_image :: "props \<Rightarrow> int \<Rightarrow> store \<Rightarrow> outcome" where
  "post_image body now s =
     (let imageUrl = get_field body ''imageUrl'';
          metadata = get_field body ''metadata''
      in
      if \<not> truthy imageUrl then
        (s, [], \<lparr>res_status = 400, res_json = Error_reply ''No image URL provided''\<rparr>)
      else if toString_throws imageUrl then
        (s, [], \<lparr>res_status = 500, res_json = Express_error_page\<rparr>)
      else
        let imageData = \<lparr>image_url = imageUrl, image_metadata = js_or metadata (JObj []),
               image_timestamp = now\<rparr>;
            unshifted = imageData # imageHistory s
        in (s\<lparr>imageHistory := unshifted\<rparr>,
            [Io_emit (New_image imageData), Io_emit (Image_history unshifted)],
            \<lparr>res_status = 200, res_json = Status_reply ''success'' ''Image URL received''\<rparr>))"

text \<open>\<^verbatim>\<open>xs.findIndex(P)\<close>, with \<open>None\<close> for \<open>-1\<close>.\<close>

fun findIndex :: "('a \<Rightarrow> bool) \<Rightarrow> 'a list \<Rightarrow> nat option" where
  "findIndex P [] = None"
| "findIndex P (a # as) = (if P a then Some 0 else map_option Suc (findIndex P as))"

text \<open>\<^verbatim>\<open>imageHistory[imageIndex].metadata.bannerData = bannerData\<close>\<close>

definition attach :: "bannerData \<Rightarrow> imageData \<Rightarrow> imageData" where
  "attach b img =
     img\<lparr>image_metadata := set_property (image_metadata img) ''bannerData'' (banner_value b)\<rparr>"

text \<open>
  \<^verbatim>\<open>app.post("/api/banner_data", ...)\<close>. The one statement of the \<^verbatim>\<open>try\<close> block that can
  throw is the assignment to \<^verbatim>\<open>metadata.bannerData\<close>, when the matched image's metadata is
  \<^verbatim>\<open>undefined\<close> or \<^verbatim>\<open>null\<close>; the \<^verbatim>\<open>catch\<close> branch then answers 500, after the banner record
  has been pushed. (No image POST stores such a metadata, since \<^verbatim>\<open>metadata || {}\<close> is truthy.)
\<close>

definition post_banner_data :: "props \<Rightarrow> int \<Rightarrow> store \<Rightarrow> outcome" where
  "post_banner_data body now s =
     (let imageUrl = get_field body ''imageUrl'';
          brand = get_field body ''brand'';
          position = get_field body ''position'';
          type = get_field body ''type''
      in
      if \<not> truthy imageUrl \<or> \<not> truthy brand \<or> \<not> truthy position \<or> \<not> truthy type then
        (s, [], \<lparr>res_status = 400, res_json = Error_reply ''Missing required fields''\<rparr>)
      else
        let bannerData = \<lparr>banner_imageUrl = imageUrl, banner_brand = brand,
               banner_position = position, banner_type = type, banner_timestamp = now\<rparr>;
            s1 = s\<lparr>bannerDataHistory := bannerDataHistory s @ [bannerData]\<rparr>
        in
        case findIndex (\<lambda>img. strict_eq (image_url img) imageUrl) (imageHistory s1) of
          Some imageIndex \<Rightarrow>
            if nullish (image_metadata (imageHistory s1 ! imageIndex)) then
              (s1, [], \<lparr>res_status = 500, res_json = Error_reply ''Internal server error''\<rparr>)
            else
              let updated = (imageHistory s1)
                    [imageIndex := attach bannerData (imageHistory s1 ! imageIndex)]
              in (s1\<lparr>imageHistory := updated\<rparr>,
                  [Io_emit (Image_history updated)],
                  \<lparr>res_status = 201,
                   res_json = Banner_received ''Banner data received'' bannerData\<rparr>)
        | None \<Rightarrow>
            (s1, [],
             \<lparr>res_status = 201, res_json = Banner_received ''Banner data received'' bannerData\<rparr>))"

text \<open>The four \<^verbatim>\<open>app.get\<close> handlers.\<close>

definition get_coordinates :: "store \<Rightarrow> outcome" where
  "get_coordinates s =
     (s, [], \<lparr>res_status = 200, res_json = Coordinates_reply (coordinateHistory s)\<rparr>)"

definition get_images :: "store \<Rightarrow> outcome" where
  "get_images s = (s, [], \<lparr>res_status = 200, res_json = Images_reply (imageHistory s)\<rparr>)"

definition get_banner_data :: "store \<Rightarrow> outcome" where
  "get_banner_data s =
     (s, [], \<lparr>res_status = 200, res_json = Banners_reply (bannerDataHistory s)\<rparr>)"

text \<open>\<^verbatim>\<open>req.params.imageUrl\<close> is a string, whatever the path held.\<close>

definition get_banner_data_for :: "string \<Rightarrow> store \<Rightarrow> outcome" where
  "get_banner_data_for imageUrl s =
     (case find (\<lambda>item. strict_eq (banner_imageUrl item) (JStr imageUrl)) (bannerDataHistory s) of
        Some data \<Rightarrow> (s, [], \<lparr>res_status = 200, res_json = Banner_reply data\<rparr>)
      | None \<Rightarrow> (s, [], \<lparr>res_status = 404, res_json = Error_reply
                   ''No banner data found for this image''\<rparr>))"

text \<open>The three \<^verbatim>\<open>app.delete\<close> handlers.\<close>

definition delete_coordinates :: "store \<Rightarrow> outcome" where
  "delete_coordinates s =
     (s\<lparr>coordinateHistory := []\<rparr>, [Io_emit Coordinates_cleared],
      \<lparr>res_status = 200, res_json = Status_reply ''success'' ''Coordinates cleared''\<rparr>)"

definition delete_images :: "store \<Rightarrow> outcome" where
  "delete_images s =
     (s\<lparr>imageHistory := []\<rparr>, [Io_emit Images_cleared],
      \<lparr>res_status = 200, res_json = Status_reply ''success'' ''Images cleared''\<rparr>)"

definition delete_all :: "store \<Rightarrow> outcome" where
  "delete_all s =
     (s\<lparr>coordinateHistory := [], imageHistory := [], bannerDataHistory := []\<rparr>,
      [Io_emit Coordinates_cleared, Io_emit Images_cleared],
      \<lparr>res_status = 200, res_json = Status_reply ''success'' ''All data cleared''\<rparr>)"

section \<open>Requests in sequence\<close>

datatype request =
    POST_coordinates props int
  | POST_image props int
  | POST_banner_data props int
  | GET_coordinates
  | GET_images
  | GET_banner_data
  | GET_banner_data_for string
  | DELETE_coordinates
  | DELETE_images
  | DELETE_all

fun handle :: "request \<Rightarrow> store \<Rightarrow> outcome" where
  "handle (POST_coordinates body now) s = post_coordinates body now s"
| "handle (POST_image body now) s = post_image body now s"
| "handle (POST_banner_data body now) s = post_banner_data body now s"
| "handle GET_coordinates s = get_coordinates s"
| "handle GET_images s = get_images s"
| "handle GET_banner_data s = get_banner_data s"
| "handle (GET_banner_data_for imageUrl) s = get_banner_data_for imageUrl s"
| "handle DELETE_coordinates s = delete_coordinates s"
| "handle DELETE_images s = delete_images s"
| "handle DELETE_all s = delete_all s"

text \<open>The event loop runs one handler to its end before the next request starts.\<close>

fun run :: "request list \<Rightarrow> store \<Rightarrow> store" where
  "run [] s = s"
| "run (r # rs) s = run rs (new_store (handle r s))"

text \<open>The responses that a sequence of requests gets, in order.\<close>

fun responses :: "request list \<Rightarrow> store \<Rightarrow> response list" where
  "responses [] s = []"
| "responses (r # rs) s = responded (handle r s) # responses rs (new_store (handle r s))"

section \<open>What an accepted POST stores\<close>

text \<open>The object literal \<^verbatim>\<open>coordinateData\<close> of the coordinate handler, as a function of
  the request.\<close>

definition coordinateData_of :: "props \<Rightarrow> int \<Rightarrow> coordinateData" where
  "coordinateData_of body now =
     (let coordinates = get_field body ''coordinates'' in
      \<lparr>coord_distance = element coordinates 0, coord_x = element coordinates 1,
       coord_z = element coordinates 2,
       coord_photoCapture =
         js_or (if element coordinates 3 = JUndefined then JNum 0 else element coordinates 3)
           (JNum 0),
       coord_timestamp = now\<rparr>)"

text \<open>The object literal \<^verbatim>\<open>imageData\<close> of the image handler.\<close>

definition imageData_of :: "props \<Rightarrow> int \<Rightarrow> imageData" where
  "imageData_of body now =
     \<lparr>image_url = get_field body ''imageUrl'',
      image_metadata = js_or (get_field body ''metadata'') (JObj []),
      image_timestamp = now\<rparr>"

text \<open>The object literal \<^verbatim>\<open>bannerData\<close> of the banner handler.\<close>

definition bannerData_of :: "props \<Rightarrow> int \<Rightarrow> bannerData" where
  "bannerData_of body now =
     \<lparr>banner_imageUrl = get_field body ''imageUrl'', banner_brand = get_field body ''brand'',
      banner_position = get_field body ''position'', banner_type = get_field body ''type'',
      banner_timestamp = now\<rparr>"

text \<open>The three guards of the coordinate handler, negated: the payload passes.\<close>

definition valid_coordinates :: "props \<Rightarrow> bool" where
  "valid_coordinates body =
     (let coordinates = get_field body ''coordinates'';
          photoCapture = (if element coordinates 3 = JUndefined then JNum 0
                          else element coordinates 3)
      in truthy coordinates \<and> isArray coordinates \<and> 3 \<le> array_length coordinates \<and>
         typeof (element coordinates 0) = ''number'' \<and>
         typeof (element coordinates 1) = ''number'' \<and>
         typeof (element coordinates 2) = ''number'' \<and>
         (photoCapture = JUndefined \<or> js_includes [JNum 0, JNum 1] photoCapture))"

text \<open>\<^verbatim>\<open>push\<close> followed by the conditional \<^verbatim>\<open>shift\<close>.\<close>

definition push_shift :: "coordinateData list \<Rightarrow> coordinateData \<Rightarrow> coordinateData list" where
  "push_shift h c = (if length (h @ [c]) > MAX_HISTORY_LENGTH then tl (h @ [c]) else h @ [c])"

text \<open>Values on which a property assignment takes effect.\<close>

fun is_object :: "jsval \<Rightarrow> bool" where
  "is_object (JObj ps) = True"
| "is_object (JArr xs ps) = True"
| "is_object v = False"

section \<open>A sample session\<close>

text \<open>Two coordinate readings, one image and one banner for it, posted to the empty store;
  the concrete instances below are evaluated on it.\<close>

definition sample_session :: "request list" where
  "sample_session =
     [POST_coordinates [(''coordinates'', JArr [JNum 1, JNum 2, JNum 3] [])] 10,
      POST_coordinates [(''coordinates'', JArr [JNum 4, JNum 5, JNum 6, JNum 1] [])] 11,
      POST_image [(''imageUrl'', JStr ''u'')] 12,
      POST_banner_data [(''imageUrl'', JStr ''u''), (''brand'', JStr ''b''),
                        (''position'', JStr ''p''), (''type'', JStr ''t'')] 13]"

text \<open>One hundred and one accepted readings, posted at the times \<open>0, \<dots>, 100\<close>.\<close>

definition hundred_and_one :: "(props \<times> int) list" where
  "hundred_and_one =
     map (\<lambda>n. ([(''coordinates'', JArr [JNum 1, JNum 2, JNum 3] [])], int n)) [0..<101]"

section \<open>Basic facts about the handlers\<close>

lemma strict_eq_JStr [simp]: "strict_eq v (JStr u) \<longleftrightarrow> v = JStr u"
  by (cases v) auto

lemma post_coordinates_run:
  "post_coordinates body now s =
     (if valid_coordinates body
      then (s\<lparr>coordinateHistory := push_shift (coordinateHistory s) (coordinateData_of body now)\<rparr>,
            [Io_emit (New_coordinate (coordinateData_of body now))],
            \<lparr>res_status = 200, res_json = Status_reply ''success'' ''Coordinates received''\<rparr>)
      else (s, [], \<lparr>res_status = 400, res_json = res_json (responded (post_coordinates body now s))\<rparr>))"
  by (auto simp: post_coordinates_def valid_coordinates_def coordinateData_of_def push_shift_def
      responded_def Let_def)

lemma post_coordinates_status:
  "res_status (responded (post_coordinates body now s)) = (if valid_coordinates body then 200 else 400)"
  by (subst post_coordinates_run) (simp add: responded_def)

lemma post_image_run:
  "post_image body now s =
     (if \<not> truthy (get_field body ''imageUrl'')
      then (s, [], \<lparr>res_status = 400, res_json = Error_reply ''No image URL provided''\<rparr>)
      else if toString_throws (get_field body ''imageUrl'')
      then (s, [], \<lparr>res_status = 500, res_json = Express_error_page\<rparr>)
      else (s\<lparr>imageHistory := imageData_of body now # imageHistory s\<rparr>,
            [Io_emit (New_image (imageData_of body now)),
             Io_emit (Image_history (imageData_of body now # imageHistory s))],
            \<lparr>res_status = 200, res_json = Status_reply ''success'' ''Image URL received''\<rparr>))"
  by (simp add: post_image_def imageData_of_def Let_def)

lemma findIndex_None: "findIndex P xs = None \<longleftrightarrow> (\<forall>x\<in>set xs. \<not> P x)"
  by (induction xs) auto

lemma findIndex_first:
  "(\<forall>p\<in>set pre. \<not> P p) \<Longrightarrow> P x \<Longrightarrow> findIndex P (pre @ x # post) = Some (length pre)"
  by (induction pre) auto

lemma findIndex_Some:
  "findIndex P xs = Some i \<Longrightarrow> i < length xs \<and> P (xs ! i) \<and> (\<forall>j<i. \<not> P (xs ! j))"
proof (induction xs arbitrary: i)
  case Nil
  then show ?case by simp
next
  case (Cons a as)
  show ?case
  proof (cases "P a")
    case True
    with Cons.prems show ?thesis by simp
  next
    case False
    with Cons.prems obtain k where k: "findIndex P as = Some k" "i = Suc k"
      by auto
    from Cons.IH [OF k(1)] False k(2) show ?thesis
      by (auto simp: less_Suc_eq_0_disj)
  qed
qed

lemma post_banner_data_reject:
  "\<not> (truthy (get_field body ''imageUrl'') \<and> truthy (get_field body ''brand'') \<and>
      truthy (get_field body ''position'') \<and> truthy (get_field body ''type'')) \<Longrightarrow>
   post_banner_data body now s =
     (s, [], \<lparr>res_status = 400, res_json = Error_reply ''Missing required fields''\<rparr>)"
  by (auto simp: post_banner_data_def Let_def)

lemma post_banner_data_accept:
  "truthy (get_field body ''imageUrl'') \<Longrightarrow> truthy (get_field body ''brand'') \<Longrightarrow>
   truthy (get_field body ''position'') \<Longrightarrow> truthy (get_field body ''type'') \<Longrightarrow>
   post_banner_data body now s =
     (case findIndex (\<lambda>img. strict_eq (image_url img) (get_field body ''imageUrl'')) (imageHistory s) of
        Some i \<Rightarrow>
          if nullish (image_metadata (imageHistory s ! i)) then
            (s\<lparr>bannerDataHistory := bannerDataHistory s @ [bannerData_of body now]\<rparr>, [],
             \<lparr>res_status = 500, res_json = Error_reply ''Internal server error''\<rparr>)
          else
          (s\<lparr>bannerDataHistory := bannerDataHistory s @ [bannerData_of body now],
             imageHistory := (imageHistory s)[i := attach (bannerData_of body now) (imageHistory s ! i)]\<rparr>,
           [Io_emit (Image_history ((imageHistory s)[i := attach (bannerData_of body now) (imageHistory s ! i)]))],
           \<lparr>res_status = 201, res_json = Banner_received ''Banner data received'' (bannerData_of body now)\<rparr>)
      | None \<Rightarrow>
          (s\<lparr>bannerDataHistory := bannerDataHistory s @ [bannerData_of body now]\<rparr>, [],
           \<lparr>res_status = 201, res_json = Banner_received ''Banner data received'' (bannerData_of body now)\<rparr>))"
  by (simp add: post_banner_data_def bannerData_of_def Let_def split: option.splits)

lemma post_banner_data_status:
  "res_status (responded (post_banner_data body now s)) = 400 \<longleftrightarrow>
     \<not> (truthy (get_field body ''imageUrl'') \<and> truthy (get_field body ''brand'') \<and>
        truthy (get_field body ''position'') \<and> truthy (get_field body ''type''))"
  by (auto simp: post_banner_data_reject post_banner_data_accept responded_def
      split: option.splits if_splits)

lemma accepted_banner:
  "res_status (responded (post_banner_data body now s)) = 201 \<Longrightarrow>
   truthy (get_field body ''imageUrl'') \<and> truthy (get_field body ''brand'') \<and>
   truthy (get_field body ''position'') \<and> truthy (get_field body ''type'')"
  by (rule ccontr) (simp add: post_banner_data_reject responded_def)

lemma find_first:
  "(\<forall>p\<in>set pre. \<not> P p) \<Longrightarrow> P x \<Longrightarrow> find P (pre @ x # post) = Some x"
  by (induction pre) auto

lemma post_image_status:
  "res_status (responded (post_image body now s)) =
     (if \<not> truthy (get_field body ''imageUrl'') then 400
      else if toString_throws (get_field body ''imageUrl'') then 500 else 200)"
  by (simp add: post_image_run responded_def)

lemma run_post_images:
  "\<forall>r\<in>set (responses (map (\<lambda>(body, now). POST_image body now) ps) s). res_status r = 200 \<Longrightarrow>
   imageHistory (run (map (\<lambda>(body, now). POST_image body now) ps) s) =
     rev (map (\<lambda>(body, now). imageData_of body now) ps) @ imageHistory s"
proof (induction ps arbitrary: s)
  case Nil
  then show ?case by simp
next
  case (Cons p ps)
  obtain body now where p: "p = (body, now)" by (cases p)
  from Cons.prems have ok: "truthy (get_field body ''imageUrl'')"
    "\<not> toString_throws (get_field body ''imageUrl'')"
    by (simp_all add: p post_image_status split: if_splits)
  from Cons.prems have rest:
    "\<forall>r\<in>set (responses (map (\<lambda>(body, now). POST_image body now) ps)
         (new_store (post_image body now s))). res_status r = 200"
    by (simp add: p)
  from Cons.IH [OF rest] ok show ?case
    by (simp add: p post_image_run new_store_def)
qed

lemma length_push_shift:
  "length h \<le> 100 \<Longrightarrow> length (push_shift h c) \<le> 100"
  by (simp add: push_shift_def MAX_HISTORY_LENGTH_def)

lemma post_banner_data_coordinates:
  "coordinateHistory (new_store (post_banner_data body now s)) = coordinateHistory s"
proof (cases "truthy (get_field body ''imageUrl'') \<and> truthy (get_field body ''brand'') \<and>
      truthy (get_field body ''position'') \<and> truthy (get_field body ''type'')")
  case True
  then show ?thesis
    by (simp add: post_banner_data_accept new_store_def split: option.splits)
next
  case False
  then show ?thesis
    by (simp add: post_banner_data_reject new_store_def)
qed

lemma handle_coordinate_bound:
  assumes "length (coordinateHistory s) \<le> 100"
  shows "length (coordinateHistory (new_store (handle r s))) \<le> 100"
proof (cases r)
  case (POST_coordinates body now)
  show ?thesis unfolding POST_coordinates handle.simps
    by (subst post_coordinates_run) (simp add: new_store_def length_push_shift assms)
next
  case (POST_image body now)
  with assms show ?thesis by (simp add: post_image_run new_store_def)
next
  case (POST_banner_data body now)
  with assms show ?thesis by (simp add: post_banner_data_coordinates)
next
  case (GET_banner_data_for u)
  with assms show ?thesis
    by (simp add: get_banner_data_for_def new_store_def split: option.splits)
qed (use assms in \<open>simp_all add: new_store_def get_coordinates_def get_images_def
      get_banner_data_def delete_coordinates_def delete_images_def delete_all_def\<close>)

lemma run_coordinate_bound:
  "length (coordinateHistory s) \<le> 100 \<Longrightarrow> length (coordinateHistory (run rs s)) \<le> 100"
  by (induction rs arbitrary: s) (simp_all add: handle_coordinate_bound)

lemma run_post_coordinates:
  assumes "\<forall>r\<in>set (responses (map (\<lambda>(body, now). POST_coordinates body now) ps) s).
             res_status r = 200"
    and "length (coordinateHistory s) \<le> 100"
  shows "coordinateHistory (run (map (\<lambda>(body, now). POST_coordinates body now) ps) s) =
           drop (length (coordinateHistory s) + length ps - 100)
             (coordinateHistory s @ map (\<lambda>(body, now). coordinateData_of body now) ps)"
  using assms
proof (induction ps arbitrary: s)
  case Nil
  then show ?case by simp
next
  case (Cons p ps)
  obtain body now where p: "p = (body, now)" by (cases p)
  let ?h = "coordinateHistory s"
  let ?c = "coordinateData_of body now"
  let ?s' = "new_store (post_coordinates body now s)"
  let ?cs = "map (\<lambda>(body, now). coordinateData_of body now) ps"
  from Cons.prems(1) have ok: "valid_coordinates body"
    by (simp add: p post_coordinates_status split: if_splits)
  have h': "coordinateHistory ?s' = push_shift ?h ?c"
    using ok by (subst post_coordinates_run) (simp add: new_store_def)
  from Cons.prems(1) have rest:
    "\<forall>r\<in>set (responses (map (\<lambda>(body, now). POST_coordinates body now) ps) ?s'). res_status r = 200"
    by (simp add: p)
  have bound: "length (coordinateHistory ?s') \<le> 100"
    by (simp add: h' length_push_shift Cons.prems(2))
  have "coordinateHistory (run (map (\<lambda>(body, now). POST_coordinates body now) (p # ps)) s) =
      drop (length (push_shift ?h ?c) + length ps - 100) (push_shift ?h ?c @ ?cs)"
    using Cons.IH [OF rest bound] by (simp add: p h')
  also have "\<dots> = drop (length ?h + length (p # ps) - 100) (?h @ ?c # ?cs)"
  proof (cases "length ?h = 100")
    case True
    then show ?thesis
      by (cases ?h) (simp_all add: push_shift_def MAX_HISTORY_LENGTH_def)
  next
    case False
    with Cons.prems(2) have "push_shift ?h ?c = ?h @ [?c]"
      by (simp add: push_shift_def MAX_HISTORY_LENGTH_def)
    then show ?thesis by simp
  qed
  finally show ?case by (simp add: p)
qed

lemma valid_responses:
  "\<forall>p\<in>set ps. valid_coordinates (fst p) \<Longrightarrow>
   \<forall>r\<in>set (responses (map (\<lambda>(body, now). POST_coordinates body now) ps) s). res_status r = 200"
  by (induction ps arbitrary: s) (auto simp: post_coordinates_status)

lemma get_field_update:
  "get_field (AList.update k w ps) k' = (if k' = k then w else get_field ps k')"
  by (simp add: get_field_def update_conv')

lemma is_object_set_property [simp]: "is_object (set_property v k w) = is_object v"
  by (cases v) simp_all

lemma attach_fields [simp]:
  "image_url (attach b img) = image_url img"
  "image_timestamp (attach b img) = image_timestamp img"
  "is_object (image_metadata (attach b img)) = is_object (image_metadata img)"
  by (simp_all add: attach_def)

lemma attach_bannerData:
  "is_object (image_metadata img) \<Longrightarrow>
   metadata_bannerData (image_metadata (attach b img)) = Some (banner_value b)"
  by (cases "image_metadata img") (simp_all add: attach_def get_field_update)

lemma banner_value_inject: "banner_value a = banner_value b \<Longrightarrow> a = b"
  by (cases a, cases b) (simp add: banner_value_def)

lemma post_banner_data_match:
  assumes "res_status (responded (post_banner_data body now s)) = 201"
    and "imageHistory s = pre @ img # post"
    and "\<forall>p\<in>set pre. \<not> strict_eq (image_url p) (get_field body ''imageUrl'')"
    and "strict_eq (image_url img) (get_field body ''imageUrl'')"
  shows "new_store (post_banner_data body now s) =
           s\<lparr>bannerDataHistory := bannerDataHistory s @ [bannerData_of body now],
             imageHistory := pre @ attach (bannerData_of body now) img # post\<rparr>"
proof -
  from assms(1) have ok: "truthy (get_field body ''imageUrl'')" "truthy (get_field body ''brand'')"
    "truthy (get_field body ''position'')" "truthy (get_field body ''type'')"
    by (auto dest: accepted_banner)
  have i: "findIndex (\<lambda>i. strict_eq (image_url i) (get_field body ''imageUrl'')) (imageHistory s) =
      Some (length pre)"
    using assms(3,4) by (simp add: assms(2) findIndex_first)
  have u: "(imageHistory s)[length pre := attach (bannerData_of body now) (imageHistory s ! length pre)] =
      pre @ attach (bannerData_of body now) img # post"
    by (simp add: assms(2))
  have n: "\<not> nullish (image_metadata (imageHistory s ! length pre))"
  proof
    assume "nullish (image_metadata (imageHistory s ! length pre))"
    then have "res_status (responded (post_banner_data body now s)) = 500"
      unfolding post_banner_data_accept [OF ok] i option.case by (simp add: responded_def)
    with assms(1) show False by simp
  qed
  show ?thesis
    unfolding post_banner_data_accept [OF ok] i option.case u if_not_P [OF n] new_store_def fst_conv ..
qed

lemma post_banner_data_no_match:
  assumes "res_status (responded (post_banner_data body now s)) = 201"
    and "\<forall>p\<in>set (imageHistory s). \<not> strict_eq (image_url p) (get_field body ''imageUrl'')"
  shows "new_store (post_banner_data body now s) =
           s\<lparr>bannerDataHistory := bannerDataHistory s @ [bannerData_of body now]\<rparr>"
proof -
  from assms(1) have ok: "truthy (get_field body ''imageUrl'')" "truthy (get_field body ''brand'')"
    "truthy (get_field body ''position'')" "truthy (get_field body ''type'')"
    by (auto dest: accepted_banner)
  from assms(2)
  have "findIndex (\<lambda>i. strict_eq (image_url i) (get_field body ''imageUrl'')) (imageHistory s) = None"
    by (simp add: findIndex_None)
  then show ?thesis
    by (simp add: post_banner_data_accept [OF ok] new_store_def)
qed

lemma length_responses [simp]: "length (responses rs s) = length rs"
  by (induction rs arbitrary: s) simp_all

lemma post_banner_data_match_outcome:
  assumes ok: "truthy (get_field body ''imageUrl'')" "truthy (get_field body ''brand'')"
      "truthy (get_field body ''position'')" "truthy (get_field body ''type'')"
    and img: "imageHistory s = pre @ img # post"
    and pre: "\<forall>p\<in>set pre. \<not> strict_eq (image_url p) (get_field body ''imageUrl'')"
    and url: "strict_eq (image_url img) (get_field body ''imageUrl'')"
    and n: "\<not> nullish (image_metadata img)"
  shows "post_banner_data body now s =
    (s\<lparr>bannerDataHistory := bannerDataHistory s @ [bannerData_of body now],
       imageHistory := pre @ attach (bannerData_of body now) img # post\<rparr>,
     [Io_emit (Image_history (pre @ attach (bannerData_of body now) img # post))],
     \<lparr>res_status = 201,
      res_json = Banner_received ''Banner data received'' (bannerData_of body now)\<rparr>)"
proof -
  have i: "findIndex (\<lambda>i. strict_eq (image_url i) (get_field body ''imageUrl'')) (imageHistory s) =
      Some (length pre)"
    using pre url by (simp add: img findIndex_first)
  have u: "(imageHistory s)[length pre := attach (bannerData_of body now) (imageHistory s ! length pre)] =
      pre @ attach (bannerData_of body now) img # post"
    by (simp add: img)
  have n': "\<not> nullish (image_metadata (imageHistory s ! length pre))"
    using n by (simp add: img)
  show ?thesis
    unfolding post_banner_data_accept [OF ok] i option.case u if_not_P [OF n'] ..
qed

lemma attach_primitive:
  "\<not> is_object (image_metadata img) \<Longrightarrow> attach b img = img"
  by (cases "image_metadata img") (simp_all add: attach_def)

lemma post_banner_data_banners:
  "res_status (responded (post_banner_data body now s)) = 201 \<Longrightarrow>
   bannerDataHistory (new_store (post_banner_data body now s)) =
     bannerDataHistory s @ [bannerData_of body now]"
  by (frule accepted_banner)
    (simp add: post_banner_data_accept new_store_def split: option.splits)

lemma run_append: "run (xs @ ys) s = run ys (run xs s)"
  by (induction xs arbitrary: s) simp_all

lemma find_append_Some: "find P xs = Some b \<Longrightarrow> find P (xs @ ys) = Some b"
  by (induction xs) (auto split: if_splits)

lemma handle_banners_grow:
  "r \<noteq> DELETE_all \<Longrightarrow>
   \<exists>extra. bannerDataHistory (new_store (handle r s)) = bannerDataHistory s @ extra"
proof (cases r)
  case (POST_coordinates body now)
  show ?thesis unfolding POST_coordinates handle.simps
    by (subst post_coordinates_run) (simp add: new_store_def)
next
  case (POST_image body now)
  then show ?thesis by (simp add: post_image_run new_store_def)
next
  case (POST_banner_data body now)
  show ?thesis
  proof (cases "truthy (get_field body ''imageUrl'') \<and> truthy (get_field body ''brand'') \<and>
      truthy (get_field body ''position'') \<and> truthy (get_field body ''type'')")
    case True
    then show ?thesis
      by (simp add: POST_banner_data post_banner_data_accept new_store_def split: option.splits)
  next
    case False
    then show ?thesis
      by (simp add: POST_banner_data post_banner_data_reject new_store_def)
  qed
next
  case (GET_banner_data_for u)
  then show ?thesis
    by (simp add: get_banner_data_for_def new_store_def split: option.splits)
qed (simp_all add: new_store_def get_coordinates_def get_images_def
      get_banner_data_def delete_coordinates_def delete_images_def)

lemma run_banners_grow:
  "DELETE_all \<notin> set rs \<Longrightarrow>
   \<exists>extra. bannerDataHistory (run rs s) = bannerDataHistory s @ extra"
proof (induction rs arbitrary: s)
  case Nil
  then show ?case by simp
next
  case (Cons r rs)
  then have "r \<noteq> DELETE_all" "DELETE_all \<notin> set rs" by auto
  from handle_banners_grow [OF this(1), of s] obtain e1
    where e1: "bannerDataHistory (new_store (handle r s)) = bannerDataHistory s @ e1" ..
  from Cons.IH [OF \<open>DELETE_all \<notin> set rs\<close>, of "new_store (handle r s)"] obtain e2
    where "bannerDataHistory (run rs (new_store (handle r s))) =
      bannerDataHistory (new_store (handle r s)) @ e2" ..
  with e1 show ?case by simp
qed

lemmas eval_defs = initial_def new_store_def emitted_def responded_def post_coordinates_def
  post_image_def post_banner_data_def get_field_def js_or_def js_includes_def
  MAX_HISTORY_LENGTH_def Let_def get_coordinates_def get_images_def get_banner_data_def
  get_banner_data_for_def delete_coordinates_def delete_images_def delete_all_def attach_def
  banner_value_def on_connection_def sample_session_def

section \<open>Clearing everything\<close>

text \<open>
  Claim C6. \<^verbatim>\<open>DELETE /api/all\<close> leaves all three sequences empty, whatever they held; it
  broadcasts exactly the two events \<^verbatim>\<open>coordinates-cleared\<close> and \<^verbatim>\<open>images-cleared\<close>, in that
  order, to all connections; and the three listing GETs that follow it each answer 200 with
  the empty sequence and leave the store empty.
\<close>

theorem delete_all_clears:
  "new_store (delete_all s) = initial \<and>
   emitted (delete_all s) = [Io_emit Coordinates_cleared, Io_emit Images_cleared] \<and>
   responses [DELETE_all, GET_coordinates, GET_images, GET_banner_data] s =
     [\<lparr>res_status = 200, res_json = Status_reply ''success'' ''All data cleared''\<rparr>,
      \<lparr>res_status = 200, res_json = Coordinates_reply []\<rparr>,
      \<lparr>res_status = 200, res_json = Images_reply []\<rparr>,
      \<lparr>res_status = 200, res_json = Banners_reply []\<rparr>] \<and>
   run [DELETE_all, GET_coordinates, GET_images, GET_banner_data] s = initial"
  by (simp add: delete_all_def get_coordinates_def get_images_def get_banner_data_def
      new_store_def emitted_def responded_def initial_def)

theorem delete_all_clears_witness:
  "coordinateHistory (run sample_session initial) \<noteq> [] \<and>
   imageHistory (run sample_session initial) \<noteq> [] \<and>
   bannerDataHistory (run sample_session initial) \<noteq> [] \<and>
   new_store (delete_all (run sample_session initial)) = initial \<and>
   emitted (delete_all (run sample_session initial)) =
     [Io_emit Coordinates_cleared, Io_emit Images_cleared] \<and>
   map res_json (responses [DELETE_all, GET_coordinates, GET_images, GET_banner_data]
                   (run sample_session initial)) =
     [Status_reply ''success'' ''All data cleared'', Coordinates_reply [], Images_reply [],
      Banners_reply []]"
  using delete_all_clears [of "run sample_session initial"]
  by (simp add: eval_defs)

section \<open>Frames of the clears and the reads\<close>

text \<open>
  Claim C9. \<^verbatim>\<open>DELETE /api/coordinates\<close> leaves the image and the banner sequence as they
  were, \<^verbatim>\<open>DELETE /api/images\<close> leaves the coordinate and the banner sequence as they were,
  and each of the four GET handlers returns the store it was given.
\<close>

theorem clears_and_reads_framed:
  "imageHistory (new_store (delete_coordinates s)) = imageHistory s \<and>
   bannerDataHistory (new_store (delete_coordinates s)) = bannerDataHistory s \<and>
   coordinateHistory (new_store (delete_images s)) = coordinateHistory s \<and>
   bannerDataHistory (new_store (delete_images s)) = bannerDataHistory s \<and>
   new_store (get_coordinates s) = s \<and>
   new_store (get_images s) = s \<and>
   new_store (get_banner_data s) = s \<and>
   new_store (get_banner_data_for u s) = s"
  by (simp add: delete_coordinates_def delete_images_def get_coordinates_def get_images_def
      get_banner_data_def get_banner_data_for_def new_store_def split: option.splits)

theorem clears_and_reads_framed_witness:
  "imageHistory (new_store (delete_coordinates (run sample_session initial))) =
     [\<lparr>image_url = JStr ''u'',
       image_metadata = JObj [(''bannerData'', JObj
          [(''imageUrl'', JStr ''u''), (''brand'', JStr ''b''), (''position'', JStr ''p''),
           (''type'', JStr ''t''), (''timestamp'', JNum 13)])],
       image_timestamp = 12\<rparr>] \<and>
   length (bannerDataHistory (new_store (delete_coordinates (run sample_session initial)))) = 1 \<and>
   length (coordinateHistory (new_store (delete_images (run sample_session initial)))) = 2 \<and>
   length (bannerDataHistory (new_store (delete_images (run sample_session initial)))) = 1 \<and>
   new_store (get_banner_data_for ''u'' (run sample_session initial)) = run sample_session initial"
  using clears_and_reads_framed [of "run sample_session initial" "''u''"]
  by (simp add: eval_defs)

section \<open>Rejected POSTs\<close>

text \<open>
  Claim C8. Whenever one of the three POST handlers answers 400, the store it returns is the
  store it was given (all three sequences unchanged) and it emits no event.
\<close>

theorem rejected_post_is_atomic:
  "(res_status (responded (post_coordinates body now s)) = 400 \<longrightarrow>
      new_store (post_coordinates body now s) = s \<and> emitted (post_coordinates body now s) = []) \<and>
   (res_status (responded (post_image body now s)) = 400 \<longrightarrow>
      new_store (post_image body now s) = s \<and> emitted (post_image body now s) = []) \<and>
   (res_status (responded (post_banner_data body now s)) = 400 \<longrightarrow>
      new_store (post_banner_data body now s) = s \<and> emitted (post_banner_data body now s) = [])"
proof (intro conjI impI)
  assume "res_status (responded (post_coordinates body now s)) = 400"
  then have "\<not> valid_coordinates body"
    by (simp add: post_coordinates_status split: if_splits)
  then show "new_store (post_coordinates body now s) = s"
    and "emitted (post_coordinates body now s) = []"
    by (subst post_coordinates_run, simp add: new_store_def emitted_def)+
next
  assume "res_status (responded (post_image body now s)) = 400"
  then have "\<not> truthy (get_field body ''imageUrl'')"
    by (simp add: post_image_run responded_def split: if_splits)
  then show "new_store (post_image body now s) = s"
    and "emitted (post_image body now s) = []"
    by (simp_all add: post_image_run new_store_def emitted_def)
next
  assume "res_status (responded (post_banner_data body now s)) = 400"
  then have "\<not> (truthy (get_field body ''imageUrl'') \<and> truthy (get_field body ''brand'') \<and>
      truthy (get_field body ''position'') \<and> truthy (get_field body ''type''))"
    by (simp add: post_banner_data_status)
  then show "new_store (post_banner_data body now s) = s"
    and "emitted (post_banner_data body now s) = []"
    by (simp_all add: post_banner_data_reject new_store_def emitted_def)
qed

theorem rejected_post_is_atomic_witness:
  "res_status (responded (post_coordinates [(''coordinates'', JArr [JNum 1, JNum 2] [])] 7 initial)) = 400 \<and>
   res_status (responded (post_image [(''metadata'', JObj [])] 7 initial)) = 400 \<and>
   res_status (responded (post_banner_data [(''imageUrl'', JStr ''u''), (''brand'', JStr [])] 7 initial)) = 400 \<and>
   new_store (post_coordinates [(''coordinates'', JArr [JNum 1, JNum 2] [])] 7 initial) = initial \<and>
   emitted (post_coordinates [(''coordinates'', JArr [JNum 1, JNum 2] [])] 7 initial) = [] \<and>
   new_store (post_image [(''metadata'', JObj [])] 7 initial) = initial \<and>
   emitted (post_image [(''metadata'', JObj [])] 7 initial) = [] \<and>
   new_store (post_banner_data [(''imageUrl'', JStr ''u''), (''brand'', JStr [])] 7 initial) = initial \<and>
   emitted (post_banner_data [(''imageUrl'', JStr ''u''), (''brand'', JStr [])] 7 initial) = []"
  using rejected_post_is_atomic [of "[(''coordinates'', JArr [JNum 1, JNum 2] [])]" 7 initial]
    rejected_post_is_atomic [of "[(''metadata'', JObj [])]" 7 initial]
    rejected_post_is_atomic [of "[(''imageUrl'', JStr ''u''), (''brand'', JStr [])]" 7 initial]
  by (simp add: eval_defs)

section \<open>Seeding a new connection\<close>

text \<open>
  Claim C7. A new connection is sent the coordinate snapshot exactly when the coordinate
  sequence is not empty and the image snapshot exactly when the image sequence is not empty,
  each once and to that socket only; nothing else is sent (there is no banner event), so a
  client that connects while both histories are empty receives no seed event.
\<close>

theorem on_connection_seed:
  "(Socket_emit (Coordinate_history (coordinateHistory s)) \<in> set (on_connection s)
      \<longleftrightarrow> coordinateHistory s \<noteq> []) \<and>
   (Socket_emit (Image_history (imageHistory s)) \<in> set (on_connection s)
      \<longleftrightarrow> imageHistory s \<noteq> []) \<and>
   (\<forall>e\<in>set (on_connection s).
      e = Socket_emit (Coordinate_history (coordinateHistory s)) \<or>
      e = Socket_emit (Image_history (imageHistory s))) \<and>
   length (on_connection s) =
     (if coordinateHistory s = [] then 0 else 1) + (if imageHistory s = [] then 0 else 1) \<and>
   (coordinateHistory s = [] \<and> imageHistory s = [] \<longrightarrow> on_connection s = [])"
  by (auto simp: on_connection_def)

theorem on_connection_seed_witness:
  "coordinateHistory (run
     [POST_coordinates [(''coordinates'', JArr [JNum 1, JNum 2, JNum 3] [])] 10,
      POST_coordinates [(''coordinates'', JArr [JNum 4, JNum 5, JNum 6, JNum 1] [])] 11,
      POST_image [(''imageUrl'', JStr ''u'')] 12] initial) \<noteq> [] \<and>
   on_connection (run
     [POST_coordinates [(''coordinates'', JArr [JNum 1, JNum 2, JNum 3] [])] 10,
      POST_coordinates [(''coordinates'', JArr [JNum 4, JNum 5, JNum 6, JNum 1] [])] 11,
      POST_image [(''imageUrl'', JStr ''u'')] 12] initial) =
   [Socket_emit (Coordinate_history
      [\<lparr>coord_distance = JNum 1, coord_x = JNum 2, coord_z = JNum 3,
         coord_photoCapture = JNum 0, coord_timestamp = 10\<rparr>,
       \<lparr>coord_distance = JNum 4, coord_x = JNum 5, coord_z = JNum 6,
         coord_photoCapture = JNum 1, coord_timestamp = 11\<rparr>]),
    Socket_emit (Image_history
      [\<lparr>image_url = JStr ''u'', image_metadata = JObj [], image_timestamp = 12\<rparr>])] \<and>
   length (on_connection (run
     [POST_coordinates [(''coordinates'', JArr [JNum 1, JNum 2, JNum 3] [])] 10,
      POST_coordinates [(''coordinates'', JArr [JNum 4, JNum 5, JNum 6, JNum 1] [])] 11,
      POST_image [(''imageUrl'', JStr ''u'')] 12] initial)) = 2 \<and>
   on_connection initial = []"
  using on_connection_seed [of "run
     [POST_coordinates [(''coordinates'', JArr [JNum 1, JNum 2, JNum 3] [])] 10,
      POST_coordinates [(''coordinates'', JArr [JNum 4, JNum 5, JNum 6, JNum 1] [])] 11,
      POST_image [(''imageUrl'', JStr ''u'')] 12] initial"]
    on_connection_seed [of initial]
  by (simp add: eval_defs)

section \<open>Validation of coordinate payloads\<close>

text \<open>
  Claim C4. When the \<^verbatim>\<open>coordinates\<close> property of the body is an array,
  \<^verbatim>\<open>POST /api/coordinates\<close> answers 400 if the array has fewer than three elements or if one
  of its first three elements is not a number; it answers 200 for an array of exactly three
  numbers, and the record it stores then (the last of the coordinate sequence) carries those
  three numbers, the request's time and \<^verbatim>\<open>photoCapture = 0\<close>.
\<close>

theorem post_coordinates_validation:
  assumes "get_field body ''coordinates'' = JArr xs ps"
  shows "(length xs < 3 \<or> (\<exists>i<3. typeof (xs ! i) \<noteq> ''number'') \<longrightarrow>
           res_status (responded (post_coordinates body now s)) = 400) \<and>
         (xs = [JNum a, JNum b, JNum c] \<longrightarrow>
           res_status (responded (post_coordinates body now s)) = 200 \<and>
           last (coordinateHistory (new_store (post_coordinates body now s))) =
             \<lparr>coord_distance = JNum a, coord_x = JNum b, coord_z = JNum c,
              coord_photoCapture = JNum 0, coord_timestamp = now\<rparr>)"
proof (intro conjI impI)
  assume bad: "length xs < 3 \<or> (\<exists>i<3. typeof (xs ! i) \<noteq> ''number'')"
  have "\<not> valid_coordinates body"
  proof (cases "length xs < 3")
    case True
    then show ?thesis by (simp add: valid_coordinates_def assms)
  next
    case False
    with bad obtain i where i: "i < 3" "typeof (xs ! i) \<noteq> ''number''" by blast
    from i(1) have "i = 0 \<or> i = 1 \<or> i = 2" by arith
    with i(2) False show ?thesis
      by (auto simp: valid_coordinates_def assms Let_def)
  qed
  then show "res_status (responded (post_coordinates body now s)) = 400"
    by (simp add: post_coordinates_status)
next
  assume xs: "xs = [JNum a, JNum b, JNum c]"
  have v: "valid_coordinates body"
    by (simp add: valid_coordinates_def assms xs js_includes_def)
  then show "res_status (responded (post_coordinates body now s)) = 200"
    by (simp add: post_coordinates_status)
  have c: "coordinateData_of body now =
      \<lparr>coord_distance = JNum a, coord_x = JNum b, coord_z = JNum c,
       coord_photoCapture = JNum 0, coord_timestamp = now\<rparr>"
    by (simp add: coordinateData_of_def assms xs js_or_def)
  have "last (push_shift h d) = d" for h d
    by (cases h) (auto simp: push_shift_def MAX_HISTORY_LENGTH_def)
  with v c show "last (coordinateHistory (new_store (post_coordinates body now s))) =
      \<lparr>coord_distance = JNum a, coord_x = JNum b, coord_z = JNum c,
       coord_photoCapture = JNum 0, coord_timestamp = now\<rparr>"
    by (subst post_coordinates_run) (simp add: new_store_def)
qed

theorem post_coordinates_validation_witness:
  "res_status (responded (post_coordinates
      [(''coordinates'', JArr [JNum 1, JNum 2] [])] 5 initial)) = 400 \<and>
   res_status (responded (post_coordinates
      [(''coordinates'', JArr [JStr ''a'', JNum 1, JNum 2] [])] 5 initial)) = 400 \<and>
   res_status (responded (post_coordinates
      [(''coordinates'', JArr [JNum 1, JNum 2, JNum 3] [])] 5 initial)) = 200 \<and>
   coordinateHistory (new_store (post_coordinates
      [(''coordinates'', JArr [JNum 1, JNum 2, JNum 3] [])] 5 initial)) =
     [\<lparr>coord_distance = JNum 1, coord_x = JNum 2, coord_z = JNum 3,
       coord_photoCapture = JNum 0, coord_timestamp = 5\<rparr>]"
  using post_coordinates_validation
      [of "[(''coordinates'', JArr [JNum 1, JNum 2] [])]" "[JNum 1, JNum 2]" "[]" 5 initial]
    post_coordinates_validation
      [of "[(''coordinates'', JArr [JStr ''a'', JNum 1, JNum 2] [])]"
          "[JStr ''a'', JNum 1, JNum 2]" "[]" 5 initial]
    post_coordinates_validation
      [of "[(''coordinates'', JArr [JNum 1, JNum 2, JNum 3] [])]"
          "[JNum 1, JNum 2, JNum 3]" "[]" 5 initial 1 2 3]
  by (simp add: eval_defs)

section \<open>Looking a banner record up\<close>

text \<open>
  Claim C5. \<^verbatim>\<open>GET /api/banner_data/:imageUrl\<close> answers 200 with the first banner record, in
  the order of the banner sequence, whose \<^verbatim>\<open>imageUrl\<close> is the string of the path parameter
  (every record before it has another \<^verbatim>\<open>imageUrl\<close>), and answers 404 when no stored banner
  record has that \<^verbatim>\<open>imageUrl\<close>.
\<close>

theorem get_banner_data_for_first_match:
  "(bannerDataHistory s = pre @ b # post \<and> (\<forall>p\<in>set pre. banner_imageUrl p \<noteq> JStr u) \<and>
      banner_imageUrl b = JStr u \<longrightarrow>
      responded (get_banner_data_for u s) = \<lparr>res_status = 200, res_json = Banner_reply b\<rparr>) \<and>
   ((\<forall>p\<in>set (bannerDataHistory s). banner_imageUrl p \<noteq> JStr u) \<longrightarrow>
      res_status (responded (get_banner_data_for u s)) = 404)"
proof (intro conjI impI)
  assume "bannerDataHistory s = pre @ b # post \<and> (\<forall>p\<in>set pre. banner_imageUrl p \<noteq> JStr u) \<and>
      banner_imageUrl b = JStr u"
  then have "find (\<lambda>item. strict_eq (banner_imageUrl item) (JStr u)) (bannerDataHistory s) = Some b"
    by (simp add: find_first)
  then show "responded (get_banner_data_for u s) = \<lparr>res_status = 200, res_json = Banner_reply b\<rparr>"
    by (simp add: get_banner_data_for_def responded_def)
next
  assume "\<forall>p\<in>set (bannerDataHistory s). banner_imageUrl p \<noteq> JStr u"
  then have "find (\<lambda>item. strict_eq (banner_imageUrl item) (JStr u)) (bannerDataHistory s) = None"
    by (simp add: find_None_iff)
  then show "res_status (responded (get_banner_data_for u s)) = 404"
    by (simp add: get_banner_data_for_def responded_def)
qed

theorem get_banner_data_for_first_match_witness:
  "responded (get_banner_data_for ''u'' (run sample_session initial)) =
     \<lparr>res_status = 200, res_json = Banner_reply
        \<lparr>banner_imageUrl = JStr ''u'', banner_brand = JStr ''b'', banner_position = JStr ''p'',
         banner_type = JStr ''t'', banner_timestamp = 13\<rparr>\<rparr> \<and>
   res_status (responded (get_banner_data_for ''v'' (run sample_session initial))) = 404"
  using get_banner_data_for_first_match [of "run sample_session initial" "[]"
      "\<lparr>banner_imageUrl = JStr ''u'', banner_brand = JStr ''b'', banner_position = JStr ''p'',
         banner_type = JStr ''t'', banner_timestamp = 13\<rparr>" "[]" "''u''"]
    get_banner_data_for_first_match [of "run sample_session initial" "[]"
      "\<lparr>banner_imageUrl = JStr ''u'', banner_brand = JStr ''b'', banner_position = JStr ''p'',
         banner_type = JStr ''t'', banner_timestamp = 13\<rparr>" "[]" "''v''"]
  by (simp add: eval_defs)

section \<open>The image sequence\<close>

text \<open>
  What the handler keeps of the order of insertion. After any number of image POSTs that are
  answered 200 the sequence is their records in reverse order of arrival, in front of what
  was stored before, so its length grows by one with each of them; two such POSTs \<open>A\<close> then
  \<open>B\<close> to the empty store leave \<open>[B, A]\<close>; and an image POST, whatever its answer, either
  puts its record in front of the sequence or leaves the sequence as it was, so it never
  removes an image record.
\<close>

theorem image_history_newest_first:
  "((\<forall>r\<in>set (responses (map (\<lambda>(body, now). POST_image body now) ps) s). res_status r = 200) \<longrightarrow>
      imageHistory (run (map (\<lambda>(body, now). POST_image body now) ps) s) =
        rev (map (\<lambda>(body, now). imageData_of body now) ps) @ imageHistory s \<and>
      length (imageHistory (run (map (\<lambda>(body, now). POST_image body now) ps) s)) =
        length ps + length (imageHistory s)) \<and>
   ((\<forall>r\<in>set (responses [POST_image bodyA nowA, POST_image bodyB nowB] initial).
        res_status r = 200) \<longrightarrow>
      imageHistory (run [POST_image bodyA nowA, POST_image bodyB nowB] initial) =
        [imageData_of bodyB nowB, imageData_of bodyA nowA]) \<and>
   (imageHistory (new_store (post_image body now s)) = imageData_of body now # imageHistory s \<or>
    imageHistory (new_store (post_image body now s)) = imageHistory s)"
proof (intro conjI impI)
  assume a: "\<forall>r\<in>set (responses (map (\<lambda>(body, now). POST_image body now) ps) s). res_status r = 200"
  from run_post_images [OF a]
  show "imageHistory (run (map (\<lambda>(body, now). POST_image body now) ps) s) =
        rev (map (\<lambda>(body, now). imageData_of body now) ps) @ imageHistory s" .
  then show "length (imageHistory (run (map (\<lambda>(body, now). POST_image body now) ps) s)) =
        length ps + length (imageHistory s)"
    by simp
next
  assume "\<forall>r\<in>set (responses [POST_image bodyA nowA, POST_image bodyB nowB] initial).
        res_status r = 200"
  then have "\<forall>r\<in>set (responses (map (\<lambda>(body, now). POST_image body now)
        [(bodyA, nowA), (bodyB, nowB)]) initial). res_status r = 200"
    by simp
  from run_post_images [OF this]
  show "imageHistory (run [POST_image bodyA nowA, POST_image bodyB nowB] initial) =
        [imageData_of bodyB nowB, imageData_of bodyA nowA]"
    by (simp add: initial_def)
next
  show "imageHistory (new_store (post_image body now s)) = imageData_of body now # imageHistory s \<or>
    imageHistory (new_store (post_image body now s)) = imageHistory s"
    by (simp add: post_image_run new_store_def)
qed

theorem image_history_newest_first_witness:
  "map res_status (responses [POST_image [(''imageUrl'', JStr ''A'')] 1,
      POST_image [(''imageUrl'', JStr ''B''), (''metadata'', JObj [(''k'', JNum 1)])] 2]
        initial) = [200, 200] \<and>
   imageHistory (run [POST_image [(''imageUrl'', JStr ''A'')] 1,
                      POST_image [(''imageUrl'', JStr ''B''), (''metadata'', JObj [(''k'', JNum 1)])] 2]
        initial) =
     [\<lparr>image_url = JStr ''B'', image_metadata = JObj [(''k'', JNum 1)], image_timestamp = 2\<rparr>,
      \<lparr>image_url = JStr ''A'', image_metadata = JObj [], image_timestamp = 1\<rparr>]"
  using image_history_newest_first [of "[]" initial "[(''imageUrl'', JStr ''A'')]" 1
      "[(''imageUrl'', JStr ''B''), (''metadata'', JObj [(''k'', JNum 1)])]" 2 "[]" 0]
  by (simp add: eval_defs imageData_of_def)

text \<open>
  Claim C3 says that any two valid image POSTs \<open>A\<close> then \<open>B\<close> leave \<open>[B, A]\<close>, where a valid
  POST is one that passes the handler's only check, a truthy \<^verbatim>\<open>imageUrl\<close>. The handler does
  not keep this for an \<^verbatim>\<open>imageUrl\<close> that cannot be converted to a string, such as
  \<^verbatim>\<open>{"toString": 1}\<close>: the template literal of its log line throws before the record is
  built, so the POST is answered 500, nothing is stored and nothing is emitted; posting such
  an \<open>A\<close> and then \<open>B\<close> leaves \<open>[B]\<close>.
\<close>

theorem image_post_fails_on_unprintable_url:
  assumes "truthy (get_field body ''imageUrl'')"
    and "toString_throws (get_field body ''imageUrl'')"
  shows "res_status (responded (post_image body now s)) = 500 \<and>
         new_store (post_image body now s) = s \<and>
         emitted (post_image body now s) = []"
  using assms by (simp add: post_image_run responded_def new_store_def emitted_def)

theorem image_post_fails_on_unprintable_url_witness:
  "truthy (get_field [(''imageUrl'', JObj [(''toString'', JNum 1)])] ''imageUrl'') \<and>
   res_status (responded (post_image
      [(''imageUrl'', JObj [(''toString'', JNum 1)])] 1 initial)) = 500 \<and>
   new_store (post_image [(''imageUrl'', JObj [(''toString'', JNum 1)])] 1 initial) = initial \<and>
   emitted (post_image [(''imageUrl'', JObj [(''toString'', JNum 1)])] 1 initial) = [] \<and>
   map res_status (responses
      [POST_image [(''imageUrl'', JObj [(''toString'', JNum 1)])] 1,
       POST_image [(''imageUrl'', JStr ''B'')] 2] initial) = [500, 200] \<and>
   imageHistory (run
      [POST_image [(''imageUrl'', JObj [(''toString'', JNum 1)])] 1,
       POST_image [(''imageUrl'', JStr ''B'')] 2] initial) =
     [\<lparr>image_url = JStr ''B'', image_metadata = JObj [], image_timestamp = 2\<rparr>]"
  using image_post_fails_on_unprintable_url
      [of "[(''imageUrl'', JObj [(''toString'', JNum 1)])]" 1 initial]
  by (simp add: eval_defs)

section \<open>The bound on the coordinate sequence\<close>

text \<open>
  Claim C1. From the empty store the coordinate sequence never holds more than 100 records,
  whatever requests are served. A sequence of accepted coordinate POSTs leaves the records of
  its last 100 requests, in order of arrival; after 101 of them these are the records of the
  second to the 101st request, so the 101st is there (it is the last one) and the oldest has
  been removed (no remaining record equals it when the requests' times differ).
\<close>

theorem coordinate_history_bounded:
  "length (coordinateHistory (run rs initial)) \<le> 100 \<and>
   ((\<forall>r\<in>set (responses (map (\<lambda>(body, now). POST_coordinates body now) ps) initial).
        res_status r = 200) \<longrightarrow>
      coordinateHistory (run (map (\<lambda>(body, now). POST_coordinates body now) ps) initial) =
        drop (length ps - 100) (map (\<lambda>(body, now). coordinateData_of body now) ps) \<and>
      (length ps = 101 \<longrightarrow>
         coordinateHistory (run (map (\<lambda>(body, now). POST_coordinates body now) ps) initial) =
           tl (map (\<lambda>(body, now). coordinateData_of body now) ps) \<and>
         last (coordinateHistory (run (map (\<lambda>(body, now). POST_coordinates body now) ps) initial)) =
           coordinateData_of (fst (ps ! 100)) (snd (ps ! 100)) \<and>
         (distinct (map snd ps) \<longrightarrow>
            coordinateData_of (fst (ps ! 0)) (snd (ps ! 0)) \<notin>
              set (coordinateHistory
                (run (map (\<lambda>(body, now). POST_coordinates body now) ps) initial)))))"
proof (intro conjI impI)
  show "length (coordinateHistory (run rs initial)) \<le> 100"
    by (rule run_coordinate_bound) (simp add: initial_def)
next
  let ?cs = "map (\<lambda>(body, now). coordinateData_of body now) ps"
  let ?h = "coordinateHistory (run (map (\<lambda>(body, now). POST_coordinates body now) ps) initial)"
  assume ok: "\<forall>r\<in>set (responses (map (\<lambda>(body, now). POST_coordinates body now) ps) initial).
        res_status r = 200"
  have "length (coordinateHistory initial) \<le> 100" by (simp add: initial_def)
  from run_post_coordinates [OF ok this]
  show eq: "?h = drop (length ps - 100) ?cs"
    by (simp add: initial_def)
  assume len: "length ps = 101"
  from eq len show tl: "?h = tl ?cs"
    by (simp add: drop_Suc)
  from len have ne: "tl ?cs \<noteq> []"
    by (cases ps) auto
  have "last (tl ?cs) = last ?cs"
    using ne by (cases ?cs) auto
  also have "\<dots> = ?cs ! (length ?cs - 1)"
    using len by (intro last_conv_nth) auto
  also have "\<dots> = coordinateData_of (fst (ps ! 100)) (snd (ps ! 100))"
    using len by (simp add: case_prod_beta)
  finally show "last ?h = coordinateData_of (fst (ps ! 100)) (snd (ps ! 100))"
    by (simp add: tl)
  assume d: "distinct (map snd ps)"
  have ts: "map coord_timestamp ?cs = map snd ps"
    by (simp add: coordinateData_of_def case_prod_beta Let_def)
  from d have "distinct (map coord_timestamp ?cs)" by (simp only: ts)
  then have dc: "distinct ?cs" by (simp only: distinct_map)
  from len obtain c cs where cs: "?cs = c # cs" by (cases ps) auto
  with len have "c = coordinateData_of (fst (ps ! 0)) (snd (ps ! 0))"
    by (cases ps) (auto simp: case_prod_beta)
  with dc cs show "coordinateData_of (fst (ps ! 0)) (snd (ps ! 0)) \<notin> set ?h"
    by (simp add: tl)
qed

theorem coordinate_history_bounded_witness:
  "map res_status
     (responses (map (\<lambda>(body, now). POST_coordinates body now) hundred_and_one) initial) =
     replicate 101 200 \<and>
   length hundred_and_one = 101 \<and> distinct (map snd hundred_and_one) \<and>
   length (coordinateHistory (run (map (\<lambda>(body, now). POST_coordinates body now) hundred_and_one) initial)) = 100 \<and>
   last (coordinateHistory (run (map (\<lambda>(body, now). POST_coordinates body now) hundred_and_one) initial)) =
     \<lparr>coord_distance = JNum 1, coord_x = JNum 2, coord_z = JNum 3,
      coord_photoCapture = JNum 0, coord_timestamp = 100\<rparr> \<and>
   \<lparr>coord_distance = JNum 1, coord_x = JNum 2, coord_z = JNum 3,
      coord_photoCapture = JNum 0, coord_timestamp = 0\<rparr> \<notin>
     set (coordinateHistory (run (map (\<lambda>(body, now). POST_coordinates body now) hundred_and_one) initial))"
proof -
  have v: "\<forall>r\<in>set (responses (map (\<lambda>(body, now). POST_coordinates body now) hundred_and_one) initial).
        res_status r = 200"
    by (rule valid_responses)
      (simp add: hundred_and_one_def valid_coordinates_def get_field_def js_includes_def)
  have l: "length hundred_and_one = 101"
    by (simp add: hundred_and_one_def)
  have d: "distinct (map snd hundred_and_one)"
    by (simp add: hundred_and_one_def comp_def distinct_map inj_on_def)
  have n0: "hundred_and_one ! 0 = ([(''coordinates'', JArr [JNum 1, JNum 2, JNum 3] [])], 0)"
    and n100: "hundred_and_one ! 100 = ([(''coordinates'', JArr [JNum 1, JNum 2, JNum 3] [])], 100)"
    by (simp_all add: hundred_and_one_def)
  have c: "coordinateData_of [(''coordinates'', JArr [JNum 1, JNum 2, JNum 3] [])] t =
      \<lparr>coord_distance = JNum 1, coord_x = JNum 2, coord_z = JNum 3,
       coord_photoCapture = JNum 0, coord_timestamp = t\<rparr>" for t
    by (simp add: coordinateData_of_def get_field_def js_or_def)
  let ?h = "coordinateHistory
      (run (map (\<lambda>(body, now). POST_coordinates body now) hundred_and_one) initial)"
  from coordinate_history_bounded [of "[]" hundred_and_one] v l d
  have "?h = tl (map (\<lambda>(body, now). coordinateData_of body now) hundred_and_one)"
    and "last ?h = coordinateData_of (fst (hundred_and_one ! 100)) (snd (hundred_and_one ! 100))"
    and "coordinateData_of (fst (hundred_and_one ! 0)) (snd (hundred_and_one ! 0)) \<notin> set ?h"
    by blast+
  moreover have "map res_status
     (responses (map (\<lambda>(body, now). POST_coordinates body now) hundred_and_one) initial) =
     replicate 101 200"
    using v replicate_length_same [of "map res_status
      (responses (map (\<lambda>(body, now). POST_coordinates body now) hundred_and_one) initial)" 200]
    by (simp add: length_responses l)
  ultimately show ?thesis
    using l d by (simp add: n0 n100 c)
qed

section \<open>Attaching a banner record to an image\<close>

text \<open>
  Where the first image that matches an accepted banner POST carries an object (or an array)
  as its metadata, the handler does what its comments say: that one image record, in its
  place, has the new banner record as \<^verbatim>\<open>metadata.bannerData\<close>, with the url, the timestamp,
  the array elements and every other metadata property as before, and no other image record
  changes.
\<close>

lemma banner_attaches_to_object_metadata:
  assumes "res_status (responded (post_banner_data body now s)) = 201"
    and "imageHistory s = pre @ img # post"
    and "\<forall>p\<in>set pre. \<not> strict_eq (image_url p) (get_field body ''imageUrl'')"
    and "strict_eq (image_url img) (get_field body ''imageUrl'')"
    and "is_object (image_metadata img)"
  shows "\<exists>img'. imageHistory (new_store (post_banner_data body now s)) = pre @ img' # post \<and>
           image_url img' = image_url img \<and> image_timestamp img' = image_timestamp img \<and>
           metadata_bannerData (image_metadata img') = Some (banner_value (bannerData_of body now)) \<and>
           (\<forall>ps. image_metadata img = JObj ps \<longrightarrow>
              (\<exists>ps'. image_metadata img' = JObj ps' \<and>
                 (\<forall>k. k \<noteq> ''bannerData'' \<longrightarrow> map_of ps' k = map_of ps k))) \<and>
           (\<forall>xs ps. image_metadata img = JArr xs ps \<longrightarrow>
              (\<exists>ps'. image_metadata img' = JArr xs ps' \<and>
                 (\<forall>k. k \<noteq> ''bannerData'' \<longrightarrow> map_of ps' k = map_of ps k)))"
proof (intro exI conjI)
  let ?img' = "attach (bannerData_of body now) img"
  from post_banner_data_match [OF assms(1-4)]
  show "imageHistory (new_store (post_banner_data body now s)) = pre @ ?img' # post"
    by simp
  show "image_url ?img' = image_url img" "image_timestamp ?img' = image_timestamp img"
    by simp_all
  show "metadata_bannerData (image_metadata ?img') = Some (banner_value (bannerData_of body now))"
    using assms(5) by (rule attach_bannerData)
  show "\<forall>ps. image_metadata img = JObj ps \<longrightarrow>
      (\<exists>ps'. image_metadata ?img' = JObj ps' \<and>
         (\<forall>k. k \<noteq> ''bannerData'' \<longrightarrow> map_of ps' k = map_of ps k))"
    by (simp add: attach_def update_conv')
  show "\<forall>xs ps. image_metadata img = JArr xs ps \<longrightarrow>
      (\<exists>ps'. image_metadata ?img' = JArr xs ps' \<and>
         (\<forall>k. k \<noteq> ''bannerData'' \<longrightarrow> map_of ps' k = map_of ps k))"
    by (simp add: attach_def update_conv')
qed

text \<open>
  Claim C2 says that a banner POST whose \<^verbatim>\<open>imageUrl\<close> matches an existing image sets the
  \<^verbatim>\<open>metadata.bannerData\<close> of the first matching image to the new banner record. The handler
  does not keep this where that image carries a string, a number or a boolean as metadata,
  which \<^verbatim>\<open>POST /api/image\<close> stores as it stores an object (only a falsy metadata is replaced
  by \<^verbatim>\<open>{}\<close>): the banner POST is accepted with 201, the banner record is appended, and the
  full image sequence is broadcast as if an image had been updated, but the assignment is
  dropped, the image sequence is what it was, and the matching image has no
  \<^verbatim>\<open>bannerData\<close>.
\<close>

theorem banner_dropped_on_primitive_metadata:
  assumes "truthy (get_field body ''imageUrl'')" and "truthy (get_field body ''brand'')"
    and "truthy (get_field body ''position'')" and "truthy (get_field body ''type'')"
    and "imageHistory s = pre @ img # post"
    and "\<forall>p\<in>set pre. \<not> strict_eq (image_url p) (get_field body ''imageUrl'')"
    and "strict_eq (image_url img) (get_field body ''imageUrl'')"
    and "\<not> is_object (image_metadata img)" and "\<not> nullish (image_metadata img)"
  shows "res_status (responded (post_banner_data body now s)) = 201 \<and>
         emitted (post_banner_data body now s) = [Io_emit (Image_history (imageHistory s))] \<and>
         imageHistory (new_store (post_banner_data body now s)) = imageHistory s \<and>
         metadata_bannerData (image_metadata img) = Some JUndefined \<and>
         bannerDataHistory (new_store (post_banner_data body now s)) =
           bannerDataHistory s @ [bannerData_of body now]"
proof -
  have "attach (bannerData_of body now) img = img"
    using assms(8) by (rule attach_primitive)
  with post_banner_data_match_outcome [OF assms(1-7,9), of now]
  have "post_banner_data body now s =
    (s\<lparr>bannerDataHistory := bannerDataHistory s @ [bannerData_of body now],
       imageHistory := imageHistory s\<rparr>,
     [Io_emit (Image_history (imageHistory s))],
     \<lparr>res_status = 201,
      res_json = Banner_received ''Banner data received'' (bannerData_of body now)\<rparr>)"
    by (simp add: assms(5))
  moreover have "metadata_bannerData (image_metadata img) = Some JUndefined"
    using assms(8,9) by (cases "image_metadata img") simp_all
  ultimately show ?thesis
    by (simp add: responded_def emitted_def new_store_def)
qed

theorem banner_dropped_on_primitive_metadata_witness:
  "map res_status (responses
      [POST_image [(''imageUrl'', JStr ''u''), (''metadata'', JStr ''m'')] 1,
       POST_banner_data [(''imageUrl'', JStr ''u''), (''brand'', JStr ''b''),
                         (''position'', JStr ''p''), (''type'', JStr ''t'')] 2] initial) =
     [200, 201] \<and>
   imageHistory (new_store (post_image
       [(''imageUrl'', JStr ''u''), (''metadata'', JStr ''m'')] 1 initial)) =
     [\<lparr>image_url = JStr ''u'', image_metadata = JStr ''m'', image_timestamp = 1\<rparr>] \<and>
   emitted (post_banner_data
       [(''imageUrl'', JStr ''u''), (''brand'', JStr ''b''), (''position'', JStr ''p''),
        (''type'', JStr ''t'')] 2
       (new_store (post_image
          [(''imageUrl'', JStr ''u''), (''metadata'', JStr ''m'')] 1 initial))) =
     [Io_emit (Image_history
        [\<lparr>image_url = JStr ''u'', image_metadata = JStr ''m'', image_timestamp = 1\<rparr>])] \<and>
   imageHistory (new_store (post_banner_data
       [(''imageUrl'', JStr ''u''), (''brand'', JStr ''b''), (''position'', JStr ''p''),
        (''type'', JStr ''t'')] 2
       (new_store (post_image
          [(''imageUrl'', JStr ''u''), (''metadata'', JStr ''m'')] 1 initial)))) =
     [\<lparr>image_url = JStr ''u'', image_metadata = JStr ''m'', image_timestamp = 1\<rparr>] \<and>
   metadata_bannerData (JStr ''m'') = Some JUndefined \<and>
   imageHistory (run
      [POST_image [(''imageUrl'', JStr ''u''), (''metadata'', JStr [])] 1,
       POST_banner_data [(''imageUrl'', JStr ''u''), (''brand'', JStr ''b''),
                         (''position'', JStr ''p''), (''type'', JStr ''t'')] 2] initial) =
     [\<lparr>image_url = JStr ''u'',
       image_metadata = JObj [(''bannerData'', JObj
          [(''imageUrl'', JStr ''u''), (''brand'', JStr ''b''), (''position'', JStr ''p''),
           (''type'', JStr ''t''), (''timestamp'', JNum 2)])],
       image_timestamp = 1\<rparr>]"
proof -
  let ?s = "new_store (post_image
      [(''imageUrl'', JStr ''u''), (''metadata'', JStr ''m'')] 1 initial)"
  let ?body = "[(''imageUrl'', JStr ''u''), (''brand'', JStr ''b''), (''position'', JStr ''p''),
      (''type'', JStr ''t'')]"
  let ?img = "\<lparr>image_url = JStr ''u'', image_metadata = JStr ''m'', image_timestamp = 1\<rparr>"
  have s: "imageHistory ?s = [] @ ?img # []"
    by (simp add: eval_defs)
  have "res_status (responded (post_banner_data ?body 2 ?s)) = 201 \<and>
      emitted (post_banner_data ?body 2 ?s) = [Io_emit (Image_history (imageHistory ?s))] \<and>
      imageHistory (new_store (post_banner_data ?body 2 ?s)) = imageHistory ?s \<and>
      metadata_bannerData (image_metadata ?img) = Some JUndefined \<and>
      bannerDataHistory (new_store (post_banner_data ?body 2 ?s)) =
        bannerDataHistory ?s @ [bannerData_of ?body 2]"
    by (rule banner_dropped_on_primitive_metadata [OF _ _ _ _ s]) (simp_all add: get_field_def)
  moreover have "imageHistory ?s = [?img]"
    by (simp add: eval_defs)
  moreover have "res_status (responded (post_image
      [(''imageUrl'', JStr ''u''), (''metadata'', JStr ''m'')] 1 initial)) = 200"
    by (simp add: post_image_status get_field_def)
  moreover have "imageHistory (run
      [POST_image [(''imageUrl'', JStr ''u''), (''metadata'', JStr [])] 1,
       POST_banner_data [(''imageUrl'', JStr ''u''), (''brand'', JStr ''b''),
                         (''position'', JStr ''p''), (''type'', JStr ''t'')] 2] initial) =
     [\<lparr>image_url = JStr ''u'',
       image_metadata = JObj [(''bannerData'', JObj
          [(''imageUrl'', JStr ''u''), (''brand'', JStr ''b''), (''position'', JStr ''p''),
           (''type'', JStr ''t''), (''timestamp'', JNum 2)])],
       image_timestamp = 1\<rparr>]"
    by (simp add: eval_defs)
  ultimately show ?thesis
    by simp
qed

section \<open>Two banner records for one image\<close>

text \<open>
  Claim C10, as the specification states it, fails on two kinds of accepted input. Where the
  shared \<^verbatim>\<open>imageUrl\<close> is the number \<^verbatim>\<open>42\<close>, the image is matched by both banner POSTs and
  holds the later record, but the path parameter of \<^verbatim>\<open>GET /api/banner_data/42\<close> is the string
  \<^verbatim>\<open>"42"\<close>, which is not identical to the number, and the answer is 404. Where
  \<^verbatim>\<open>DELETE /api/all\<close> is served between the two banner POSTs (and the image is posted again),
  the earlier record is gone and the GET returns the later one.
\<close>

theorem banner_views_counterexample:
  "map res_status (responses
      [POST_image [(''imageUrl'', JNum 42)] 1,
       POST_banner_data [(''imageUrl'', JNum 42), (''brand'', JStr ''first''),
                         (''position'', JStr ''p''), (''type'', JStr ''t'')] 2,
       POST_banner_data [(''imageUrl'', JNum 42), (''brand'', JStr ''second''),
                         (''position'', JStr ''p''), (''type'', JStr ''t'')] 3,
       GET_banner_data_for ''42''] initial) = [200, 201, 201, 404] \<and>
   metadata_bannerData (image_metadata (hd (imageHistory (run
      [POST_image [(''imageUrl'', JNum 42)] 1,
       POST_banner_data [(''imageUrl'', JNum 42), (''brand'', JStr ''first''),
                         (''position'', JStr ''p''), (''type'', JStr ''t'')] 2,
       POST_banner_data [(''imageUrl'', JNum 42), (''brand'', JStr ''second''),
                         (''position'', JStr ''p''), (''type'', JStr ''t'')] 3] initial)))) =
     Some (JObj [(''imageUrl'', JNum 42), (''brand'', JStr ''second''),
                 (''position'', JStr ''p''), (''type'', JStr ''t''), (''timestamp'', JNum 3)]) \<and>
   map res_status (responses
      [POST_image [(''imageUrl'', JStr ''u'')] 1,
       POST_banner_data [(''imageUrl'', JStr ''u''), (''brand'', JStr ''first''),
                         (''position'', JStr ''p''), (''type'', JStr ''t'')] 2,
       DELETE_all,
       POST_image [(''imageUrl'', JStr ''u'')] 3,
       POST_banner_data [(''imageUrl'', JStr ''u''), (''brand'', JStr ''second''),
                         (''position'', JStr ''p''), (''type'', JStr ''t'')] 4,
       GET_banner_data_for ''u''] initial) = [200, 201, 200, 200, 201, 200] \<and>
   res_json (last (responses
      [POST_image [(''imageUrl'', JStr ''u'')] 1,
       POST_banner_data [(''imageUrl'', JStr ''u''), (''brand'', JStr ''first''),
                         (''position'', JStr ''p''), (''type'', JStr ''t'')] 2,
       DELETE_all,
       POST_image [(''imageUrl'', JStr ''u'')] 3,
       POST_banner_data [(''imageUrl'', JStr ''u''), (''brand'', JStr ''second''),
                         (''position'', JStr ''p''), (''type'', JStr ''t'')] 4,
       GET_banner_data_for ''u''] initial)) =
     Banner_reply \<lparr>banner_imageUrl = JStr ''u'', banner_brand = JStr ''second'',
       banner_position = JStr ''p'', banner_type = JStr ''t'', banner_timestamp = 4\<rparr>"
  by (simp add: eval_defs)

text \<open>
  Claim C10, amended. Let a banner record with \<^verbatim>\<open>imageUrl\<close> the string \<open>u\<close> be posted and
  accepted while no banner record with that \<^verbatim>\<open>imageUrl\<close> is stored, then any requests other
  than \<^verbatim>\<open>DELETE /api/all\<close> be served, then a second banner record with \<^verbatim>\<open>imageUrl\<close> \<open>u\<close> be
  posted and accepted while an image with url \<open>u\<close> is stored, the first such image in
  newest-first order having an object (or an array) as its metadata. Then that image is still
  the first match, its \<^verbatim>\<open>metadata.bannerData\<close> is the record of the later POST, and
  \<^verbatim>\<open>GET /api/banner_data/u\<close> answers 200 with the record of the earlier POST; the two views
  differ whenever the two records do.
\<close>

theorem banner_views_disagree:
  assumes acc1: "res_status (responded (post_banner_data body1 now1 s)) = 201"
    and u1: "get_field body1 ''imageUrl'' = JStr u"
    and fresh: "\<forall>b\<in>set (bannerDataHistory s). banner_imageUrl b \<noteq> JStr u"
    and mid: "DELETE_all \<notin> set mid"
    and acc2: "res_status (responded (post_banner_data body2 now2
                 (run (POST_banner_data body1 now1 # mid) s))) = 201"
    and u2: "get_field body2 ''imageUrl'' = JStr u"
    and img: "imageHistory (run (POST_banner_data body1 now1 # mid) s) = pre @ img # post"
    and pre: "\<forall>p\<in>set pre. image_url p \<noteq> JStr u"
    and url: "image_url img = JStr u"
    and obj: "is_object (image_metadata img)"
  shows "findIndex (\<lambda>i. strict_eq (image_url i) (JStr u))
           (imageHistory
              (run (POST_banner_data body1 now1 # mid @ [POST_banner_data body2 now2]) s)) =
           Some (length pre) \<and>
         metadata_bannerData (image_metadata
           (imageHistory
              (run (POST_banner_data body1 now1 # mid @ [POST_banner_data body2 now2]) s)
            ! length pre)) = Some (banner_value (bannerData_of body2 now2)) \<and>
         responded (get_banner_data_for u
           (run (POST_banner_data body1 now1 # mid @ [POST_banner_data body2 now2]) s)) =
           \<lparr>res_status = 200, res_json = Banner_reply (bannerData_of body1 now1)\<rparr> \<and>
         (bannerData_of body1 now1 \<noteq> bannerData_of body2 now2 \<longrightarrow>
            metadata_bannerData (image_metadata
              (imageHistory
                 (run (POST_banner_data body1 now1 # mid @ [POST_banner_data body2 now2]) s)
               ! length pre)) \<noteq> Some (banner_value (bannerData_of body1 now1)))"
proof -
  let ?b1 = "bannerData_of body1 now1"
  let ?b2 = "bannerData_of body2 now2"
  let ?s1 = "new_store (post_banner_data body1 now1 s)"
  let ?sm = "run (POST_banner_data body1 now1 # mid) s"
  let ?s2 = "run (POST_banner_data body1 now1 # mid @ [POST_banner_data body2 now2]) s"
  let ?P = "\<lambda>item. strict_eq (banner_imageUrl item) (JStr u)"
  have sm: "?sm = run mid ?s1" by simp
  have s2: "?s2 = new_store (post_banner_data body2 now2 ?sm)"
    by (simp add: run_append)
  have "bannerDataHistory ?s1 = bannerDataHistory s @ ?b1 # []"
    using acc1 by (rule post_banner_data_banners)
  moreover have "banner_imageUrl ?b1 = JStr u"
    by (simp add: bannerData_of_def u1)
  ultimately have "find ?P (bannerDataHistory ?s1) = Some ?b1"
    using fresh by (simp add: find_first)
  moreover from run_banners_grow [OF mid, of ?s1] obtain extra
    where "bannerDataHistory ?sm = bannerDataHistory ?s1 @ extra"
    unfolding sm ..
  ultimately have first_m: "find ?P (bannerDataHistory ?sm) = Some ?b1"
    by (simp add: find_append_Some)
  have new: "new_store (post_banner_data body2 now2 ?sm) =
      ?sm\<lparr>bannerDataHistory := bannerDataHistory ?sm @ [?b2],
          imageHistory := pre @ attach ?b2 img # post\<rparr>"
    using acc2 img pre url by (intro post_banner_data_match) (simp_all add: u2)
  have images: "imageHistory ?s2 = pre @ attach ?b2 img # post"
    unfolding s2 new by simp
  have banners: "bannerDataHistory ?s2 = bannerDataHistory ?sm @ [?b2]"
    unfolding s2 new by simp
  have at: "imageHistory ?s2 ! length pre = attach ?b2 img"
    unfolding images by simp
  have later: "metadata_bannerData (image_metadata (imageHistory ?s2 ! length pre)) =
      Some (banner_value ?b2)"
    unfolding at using obj by (rule attach_bannerData)
  have "findIndex (\<lambda>i. strict_eq (image_url i) (JStr u)) (imageHistory ?s2) = Some (length pre)"
    unfolding images using pre url by (simp add: findIndex_first)
  moreover note later
  moreover have "find ?P (bannerDataHistory ?s2) = Some ?b1"
    unfolding banners using first_m by (rule find_append_Some)
  then have "responded (get_banner_data_for u ?s2) =
      \<lparr>res_status = 200, res_json = Banner_reply ?b1\<rparr>"
    unfolding get_banner_data_for_def responded_def by simp
  moreover have "?b1 \<noteq> ?b2 \<longrightarrow>
      metadata_bannerData (image_metadata (imageHistory ?s2 ! length pre)) \<noteq>
        Some (banner_value ?b1)"
    unfolding later by (auto dest: banner_value_inject)
  ultimately show ?thesis by blast
qed

theorem banner_views_disagree_witness:
  "map res_status (responses
      [POST_image [(''imageUrl'', JStr ''u'')] 1,
       POST_banner_data [(''imageUrl'', JStr ''u''), (''brand'', JStr ''first''),
                         (''position'', JStr ''p''), (''type'', JStr ''t'')] 2,
       POST_coordinates [(''coordinates'', JArr [JNum 1, JNum 2, JNum 3] [])] 3,
       GET_banner_data_for ''u'',
       POST_image [(''imageUrl'', JStr ''w'')] 4,
       POST_banner_data [(''imageUrl'', JStr ''u''), (''brand'', JStr ''second''),
                         (''position'', JStr ''p''), (''type'', JStr ''t'')] 5] initial) =
     [200, 201, 200, 200, 200, 201] \<and>
   metadata_bannerData (image_metadata (imageHistory (run
      (POST_banner_data [(''imageUrl'', JStr ''u''), (''brand'', JStr ''first''),
                         (''position'', JStr ''p''), (''type'', JStr ''t'')] 2 #
       [POST_coordinates [(''coordinates'', JArr [JNum 1, JNum 2, JNum 3] [])] 3,
        GET_banner_data_for ''u'',
        POST_image [(''imageUrl'', JStr ''w'')] 4] @
       [POST_banner_data [(''imageUrl'', JStr ''u''), (''brand'', JStr ''second''),
                          (''position'', JStr ''p''), (''type'', JStr ''t'')] 5])
      (new_store (post_image [(''imageUrl'', JStr ''u'')] 1 initial))) ! 1)) =
     Some (JObj [(''imageUrl'', JStr ''u''), (''brand'', JStr ''second''),
                 (''position'', JStr ''p''), (''type'', JStr ''t''), (''timestamp'', JNum 5)]) \<and>
   res_json (responded (get_banner_data_for ''u'' (run
      (POST_banner_data [(''imageUrl'', JStr ''u''), (''brand'', JStr ''first''),
                         (''position'', JStr ''p''), (''type'', JStr ''t'')] 2 #
       [POST_coordinates [(''coordinates'', JArr [JNum 1, JNum 2, JNum 3] [])] 3,
        GET_banner_data_for ''u'',
        POST_image [(''imageUrl'', JStr ''w'')] 4] @
       [POST_banner_data [(''imageUrl'', JStr ''u''), (''brand'', JStr ''second''),
                          (''position'', JStr ''p''), (''type'', JStr ''t'')] 5])
      (new_store (post_image [(''imageUrl'', JStr ''u'')] 1 initial))))) =
     Banner_reply \<lparr>banner_imageUrl = JStr ''u'', banner_brand = JStr ''first'',
       banner_position = JStr ''p'', banner_type = JStr ''t'', banner_timestamp = 2\<rparr>"
proof -
  let ?s = "new_store (post_image [(''imageUrl'', JStr ''u'')] 1 initial)"
  let ?body1 = "[(''imageUrl'', JStr ''u''), (''brand'', JStr ''first''),
                 (''position'', JStr ''p''), (''type'', JStr ''t'')]"
  let ?body2 = "[(''imageUrl'', JStr ''u''), (''brand'', JStr ''second''),
                 (''position'', JStr ''p''), (''type'', JStr ''t'')]"
  let ?mid = "[POST_coordinates [(''coordinates'', JArr [JNum 1, JNum 2, JNum 3] [])] 3,
               GET_banner_data_for ''u'',
               POST_image [(''imageUrl'', JStr ''w'')] 4]"
  let ?w = "\<lparr>image_url = JStr ''w'', image_metadata = JObj [], image_timestamp = 4\<rparr>"
  let ?img = "\<lparr>image_url = JStr ''u'',
       image_metadata = JObj [(''bannerData'', JObj
          [(''imageUrl'', JStr ''u''), (''brand'', JStr ''first''), (''position'', JStr ''p''),
           (''type'', JStr ''t''), (''timestamp'', JNum 2)])],
       image_timestamp = 1\<rparr>"
  have acc1: "res_status (responded (post_banner_data ?body1 2 ?s)) = 201"
    by (simp add: eval_defs)
  have u1: "get_field ?body1 ''imageUrl'' = JStr ''u''"
    and u2: "get_field ?body2 ''imageUrl'' = JStr ''u''"
    by (simp_all add: get_field_def)
  have fresh: "\<forall>b\<in>set (bannerDataHistory ?s). banner_imageUrl b \<noteq> JStr ''u''"
    by (simp add: eval_defs)
  have mid: "DELETE_all \<notin> set ?mid"
    by simp
  have acc2: "res_status (responded (post_banner_data ?body2 5
      (run (POST_banner_data ?body1 2 # ?mid) ?s))) = 201"
    by (simp add: eval_defs)
  have img: "imageHistory (run (POST_banner_data ?body1 2 # ?mid) ?s) = [?w] @ ?img # []"
    by (simp add: eval_defs)
  have pre: "\<forall>p\<in>set [?w]. image_url p \<noteq> JStr ''u''"
    by simp
  have url: "image_url ?img = JStr ''u''" and obj: "is_object (image_metadata ?img)"
    by simp_all
  from banner_views_disagree [OF acc1 u1 fresh mid acc2 u2 img pre url obj]
  have "metadata_bannerData (image_metadata
           (imageHistory
              (run (POST_banner_data ?body1 2 # ?mid @ [POST_banner_data ?body2 5]) ?s)
            ! length [?w])) = Some (banner_value (bannerData_of ?body2 5))"
    and "responded (get_banner_data_for ''u''
           (run (POST_banner_data ?body1 2 # ?mid @ [POST_banner_data ?body2 5]) ?s)) =
           \<lparr>res_status = 200, res_json = Banner_reply (bannerData_of ?body1 2)\<rparr>"
    by blast+
  moreover have "map res_status (responses
      (POST_image [(''imageUrl'', JStr ''u'')] 1 # POST_banner_data ?body1 2 # ?mid @
       [POST_banner_data ?body2 5]) initial) = [200, 201, 200, 200, 200, 201]"
    by (simp add: eval_defs)
  ultimately show ?thesis
    by (simp add: bannerData_of_def banner_value_def get_field_def)
qed

end
